theory Spec2Isabelle
  imports
    Main
    "HOL-Library.Multiset"
    "HOL-Library.Char_ord"
    "HOL-Library.List_Lexorder"
begin

section \<open>Data model\<close>

text \<open>
  The result types are declared outside the three source files; the records below hold
  the fields the verifiers read. \<open>Size\<close> and \<open>MaxKeys\<close> are Go \<open>int64\<close> values and no
  arithmetic is done on them, so they are integers compared for equality. A Go string is a
  byte sequence, here a \<open>string\<close>.
\<close>

record ObjectMultipartInfo =
  Key :: string
  UploadID :: string
  Size :: int

record ObjectInfo =
  Key :: string
  Size :: int
  ETag :: string

record listBucketResult =
  Name :: string
  Contents :: "ObjectInfo list"
  CommonPrefixes :: "string list"
  MaxKeys :: int

record listMultipartUploadsResult =
  Bucket :: string
  Uploads :: "ObjectMultipartInfo list"

text \<open>
  Of \<open>http.Response\<close> the verifiers read the status line, hand the whole response to the
  header check, and read the body stream through the decoder.
\<close>

record response =
  Status :: string
  Header :: "(string \<times> string) list"
  Body :: string

record ServerConfig =
  Access :: string
  Secret :: string
  Endpoint :: string
  Region :: string

text \<open>
  Every \<open>fmt.Errorf\<close> of the source is a constructor that carries the values the message
  is formatted from, wanted first and got second. \<open>MalformedBody\<close>, \<open>UnexpectedHeader\<close> and
  \<open>InvalidEndpoint\<close> stand for the errors of the collaborators that are passed in as
  parameters (the XML decoder, the standard-header check, the URL parser); the two
  run-time panics of the expected-result builder are errors as well.
\<close>

datatype error =
    UnexpectedStatus string string
  | UnexpectedBucket string string
  | UnexpectedNumberOfObjects int int
  | UnexpectedNumberOfUploads nat nat
  | WrongMetaData
  | MalformedBody
  | UnexpectedHeader string
  | InvalidEndpoint
  | IndexOutOfRange
  | SliceBoundsOutOfRange

text \<open>
  \<open>xmlDecoder\<close> reads from the body stream: it returns the decoded value or an error,
  and what is left of the stream.
\<close>

type_synonym 'a xmlDecoder = "string \<Rightarrow> (error + 'a) \<times> string"

section \<open>ListObjects V1\<close>

definition verifyStatusListObjectsV1 :: "response \<Rightarrow> string \<Rightarrow> error option" where
  "verifyStatusListObjectsV1 res expectedStatus =
     (if Status res \<noteq> expectedStatus
      then Some (UnexpectedStatus expectedStatus (Status res))
      else None)"

text \<open>
  The condition of the inner \<open>if\<close> of the body check: the received ETag is compared with
  the expected ETag put between two double-quote characters (\<open>CHR 0x22\<close>).
\<close>

definition entryMatches :: "ObjectInfo \<Rightarrow> ObjectInfo \<Rightarrow> bool" where
  "entryMatches receivedObject expectedObject =
     (Key receivedObject = Key expectedObject \<and>
      Size receivedObject = Size expectedObject \<and>
      ETag receivedObject = [CHR 0x22] @ ETag expectedObject @ [CHR 0x22])"

text \<open>The inner loop over the expected entries, with the running counter.\<close>

fun countExpected :: "ObjectInfo \<Rightarrow> ObjectInfo list \<Rightarrow> nat \<Rightarrow> nat" where
  "countExpected receivedObject [] listedObjects = listedObjects"
| "countExpected receivedObject (expectedObject # es) listedObjects =
     countExpected receivedObject es
       (if entryMatches receivedObject expectedObject
        then listedObjects + 1 else listedObjects)"

text \<open>The outer loop over the received entries.\<close>

fun countReceived :: "ObjectInfo list \<Rightarrow> ObjectInfo list \<Rightarrow> nat \<Rightarrow> nat" where
  "countReceived [] es listedObjects = listedObjects"
| "countReceived (receivedObject # rs) es listedObjects =
     countReceived rs es (countExpected receivedObject es listedObjects)"

text \<open>
  \<open>objects\<close> is the global fixture registry. The result is the error (or none) and the
  response with its body stream read by the decoder.
\<close>

definition verifyBodyListObjectsV1 ::
  "listBucketResult xmlDecoder \<Rightarrow> ObjectInfo list \<Rightarrow> response \<Rightarrow> listBucketResult
     \<Rightarrow> error option \<times> response" where
  "verifyBodyListObjectsV1 xmlDecoder objects res expectedList =
     (case xmlDecoder (Body res) of
        (Inl err, rest) \<Rightarrow> (Some err, res\<lparr>Body := rest\<rparr>)
      | (Inr receivedList, rest) \<Rightarrow>
          (if Name receivedList \<noteq> Name expectedList
           then Some (UnexpectedBucket (Name expectedList) (Name receivedList))
           else
             let listedObjects =
                   countReceived (Contents receivedList) (Contents expectedList) 0
             in if MaxKeys expectedList \<noteq> 0
                then
                  (if MaxKeys expectedList \<noteq>
                        int (length (Contents receivedList)
                             + length (CommonPrefixes receivedList))
                   then Some (UnexpectedNumberOfObjects (MaxKeys expectedList)
                          (int (length (Contents receivedList)
                                + length (CommonPrefixes receivedList))))
                   else None)
                else
                  (if length objects \<noteq> listedObjects
                   then Some (UnexpectedNumberOfObjects (int (length objects))
                          (int listedObjects))
                   else None),
           res\<lparr>Body := rest\<rparr>))"

definition verifyHeaderListObjectsV1 ::
  "(response \<Rightarrow> error option) \<Rightarrow> response \<Rightarrow> error option" where
  "verifyHeaderListObjectsV1 verifyStandardHeaders res =
     (case verifyStandardHeaders res of Some err \<Rightarrow> Some err | None \<Rightarrow> None)"

definition listObjectsV1Verify ::
  "listBucketResult xmlDecoder \<Rightarrow> (response \<Rightarrow> error option) \<Rightarrow> ObjectInfo list
     \<Rightarrow> response \<Rightarrow> string \<Rightarrow> listBucketResult \<Rightarrow> error option \<times> response" where
  "listObjectsV1Verify xmlDecoder verifyStandardHeaders objects res expectedStatus expectedList =
     (case verifyStatusListObjectsV1 res expectedStatus of
        Some err \<Rightarrow> (Some err, res)
      | None \<Rightarrow>
          (case verifyBodyListObjectsV1 xmlDecoder objects res expectedList of
             (Some err, res') \<Rightarrow> (Some err, res')
           | (None, res') \<Rightarrow>
               (case verifyHeaderListObjectsV1 verifyStandardHeaders res' of
                  Some err \<Rightarrow> (Some err, res')
                | None \<Rightarrow> (None, res'))))"

text \<open>
  The order of the three checks as the specification lists them (status, header, body),
  for comparison with \<open>listObjectsV1Verify\<close>.
\<close>

definition listObjectsV1Verify_specOrder ::
  "listBucketResult xmlDecoder \<Rightarrow> (response \<Rightarrow> error option) \<Rightarrow> ObjectInfo list
     \<Rightarrow> response \<Rightarrow> string \<Rightarrow> listBucketResult \<Rightarrow> error option \<times> response" where
  "listObjectsV1Verify_specOrder xmlDecoder verifyStandardHeaders objects res expectedStatus
       expectedList =
     (case verifyStatusListObjectsV1 res expectedStatus of
        Some err \<Rightarrow> (Some err, res)
      | None \<Rightarrow>
          (case verifyHeaderListObjectsV1 verifyStandardHeaders res of
             Some err \<Rightarrow> (Some err, res)
           | None \<Rightarrow> verifyBodyListObjectsV1 xmlDecoder objects res expectedList))"

subsection \<open>The expected results of \<open>mainListObjectsV1\<close>\<close>

text \<open>
  A Go slice expression \<open>s[:high]\<close> is bounded by the capacity of \<open>s\<close>, not by its length:
  within the length it is a prefix, between length and capacity it also shows the zero
  values behind the last element, and beyond the capacity it panics. The capacity that
  \<open>append\<close> has given the slice is a parameter.
\<close>

definition zeroObjectInfo :: ObjectInfo where
  "zeroObjectInfo = \<lparr>ObjectInfo.Key = [], Size = 0, ETag = []\<rparr>"

definition sliceTo :: "nat \<Rightarrow> nat \<Rightarrow> ObjectInfo list \<Rightarrow> error + ObjectInfo list" where
  "sliceTo high capacity s =
     (if high \<le> length s then Inr (take high s)
      else if high \<le> capacity then Inr (s @ replicate (high - length s) zeroObjectInfo)
      else Inl SliceBoundsOutOfRange)"

text \<open>
  The part of \<open>mainListObjectsV1\<close> before the first request: the bucket name is that of
  the first valid bucket (\<open>validBuckets\<close> is given by its entries' names), the fixture
  objects are copied and ordered by key, and the two expected lists are built. Keys are
  compared as Go compares strings, byte by byte. \<open>sort.Sort\<close> does not fix the order of
  entries with equal keys; \<open>sort_key\<close> keeps them in their order of registration.
\<close>

definition mainListObjectsV1_expected ::
  "string list \<Rightarrow> nat \<Rightarrow> ObjectInfo list \<Rightarrow> error + (listBucketResult \<times> listBucketResult)" where
  "mainListObjectsV1_expected validBuckets capacity objects =
     (case validBuckets of
        [] \<Rightarrow> Inl IndexOutOfRange
      | bucketName # _ \<Rightarrow>
          let objectInfo = sort_key Key objects;
              expectedList =
                \<lparr>Name = bucketName, Contents = objectInfo, CommonPrefixes = [], MaxKeys = 0\<rparr>
          in (case sliceTo 31 capacity objectInfo of
                Inl err \<Rightarrow> Inl err
              | Inr firstObjects \<Rightarrow>
                  Inr (expectedList,
                       \<lparr>Name = bucketName, Contents = firstObjects, CommonPrefixes = [],
                        MaxKeys = 30\<rparr>)))"

section \<open>ListMultipartUploads\<close>

definition listMultipartUploadsVerify ::
  "response \<Rightarrow> string \<Rightarrow> listMultipartUploadsResult \<Rightarrow> error option" where
  "listMultipartUploadsVerify res expectedStatus expectedList = None"

definition verifyHeaderListMultipartUploads ::
  "(response \<Rightarrow> error option) \<Rightarrow> response \<Rightarrow> error option" where
  "verifyHeaderListMultipartUploads verifyStandardHeaders res =
     (case verifyStandardHeaders res of Some err \<Rightarrow> Some err | None \<Rightarrow> None)"

definition verifyStatusListMultipartUploads :: "response \<Rightarrow> string \<Rightarrow> error option" where
  "verifyStatusListMultipartUploads res expectedStatus =
     (if Status res \<noteq> expectedStatus
      then Some (UnexpectedStatus expectedStatus (Status res))
      else None)"

definition uploadMatches :: "ObjectMultipartInfo \<Rightarrow> ObjectMultipartInfo \<Rightarrow> bool" where
  "uploadMatches receivedUpload expectedUpload =
     (ObjectMultipartInfo.Size receivedUpload = ObjectMultipartInfo.Size expectedUpload \<and>
      UploadID receivedUpload = UploadID expectedUpload \<and>
      ObjectMultipartInfo.Key receivedUpload = ObjectMultipartInfo.Key expectedUpload)"

fun countExpectedUploads ::
  "ObjectMultipartInfo \<Rightarrow> ObjectMultipartInfo list \<Rightarrow> nat \<Rightarrow> nat" where
  "countExpectedUploads receivedUpload [] totalUploads = totalUploads"
| "countExpectedUploads receivedUpload (expectedUpload # es) totalUploads =
     countExpectedUploads receivedUpload es
       (if uploadMatches receivedUpload expectedUpload
        then totalUploads + 1 else totalUploads)"

fun countReceivedUploads ::
  "ObjectMultipartInfo list \<Rightarrow> ObjectMultipartInfo list \<Rightarrow> nat \<Rightarrow> nat" where
  "countReceivedUploads [] es totalUploads = totalUploads"
| "countReceivedUploads (receivedUpload # rs) es totalUploads =
     countReceivedUploads rs es (countExpectedUploads receivedUpload es totalUploads)"

definition verifyBodyListMultipartUploads ::
  "listMultipartUploadsResult xmlDecoder \<Rightarrow> response \<Rightarrow> listMultipartUploadsResult
     \<Rightarrow> error option \<times> response" where
  "verifyBodyListMultipartUploads xmlDecoder res expectedList =
     (case xmlDecoder (Body res) of
        (Inl err, rest) \<Rightarrow> (Some err, res\<lparr>Body := rest\<rparr>)
      | (Inr receivedList, rest) \<Rightarrow>
          (if length (Uploads receivedList) \<noteq> length (Uploads expectedList)
           then Some (UnexpectedNumberOfUploads (length (Uploads expectedList))
                  (length (Uploads receivedList)))
           else
             let totalUploads =
                   countReceivedUploads (Uploads receivedList) (Uploads expectedList) 0
             in if totalUploads \<noteq> length (Uploads expectedList)
                then Some WrongMetaData
                else None,
           res\<lparr>Body := rest\<rparr>))"

section \<open>Server configuration\<close>

text \<open>
  \<open>url.Parse\<close>, \<open>isAmazonEndpoint\<close> and the constant \<open>globalDefaultRegion\<close> are declared
  outside the source files and are parameters. The configuration is updated in place in
  the source; here the updated configuration is returned beside the error.
\<close>

definition setRegion ::
  "(string \<Rightarrow> error + 'u) \<Rightarrow> ('u \<Rightarrow> bool) \<Rightarrow> string \<Rightarrow> ServerConfig
     \<Rightarrow> error option \<times> ServerConfig" where
  "setRegion urlParse isAmazonEndpoint globalDefaultRegion config =
     (case urlParse (Endpoint config) of
        Inl err \<Rightarrow> (Some err, config)
      | Inr endpointURL \<Rightarrow>
          (if Region config = []
           then (if isAmazonEndpoint endpointURL
                 then (None, config\<lparr>Region := ''us-west-1''\<rparr>)
                 else (None, config\<lparr>Region := globalDefaultRegion\<rparr>))
           else (None, config)))"

section \<open>Notions of the specification\<close>

text \<open>
  The count of structurally matching (received, expected) entry pairs, as the
  specification words it: the pairs of the product of the two sequences that match.
\<close>

definition matchingPairs :: "ObjectInfo list \<Rightarrow> ObjectInfo list \<Rightarrow> nat" where
  "matchingPairs rs es = length (filter (\<lambda>(r, e). entryMatches r e) (List.product rs es))"


text \<open>
  An injective pairing of the received entries to expected entries: every received entry
  is paired with a matching expected entry, and no expected entry is used twice. The
  search takes the received entries in turn and removes the expected entry it pairs.
\<close>

fun injectivePairing :: "ObjectInfo list \<Rightarrow> ObjectInfo list \<Rightarrow> bool" where
  "injectivePairing [] es = True"
| "injectivePairing (r # rs) es =
     list_ex (\<lambda>i. entryMatches r (es ! i) \<and> injectivePairing rs (take i es @ drop (Suc i) es))
       [0..<length es]"

section \<open>Fixtures of the examples\<close>

text \<open>Stand-ins for the collaborators that are parameters of the model.\<close>

definition decodeAs :: "'a \<Rightarrow> 'a xmlDecoder" where
  "decodeAs v = (\<lambda>body. (Inr v, []))"

definition decodeFails :: "'a xmlDecoder" where
  "decodeFails = (\<lambda>body. (Inl MalformedBody, []))"

definition decodeTable :: "(string \<times> 'a) list \<Rightarrow> 'a xmlDecoder" where
  "decodeTable table =
     (\<lambda>body. case map_of table body of
        Some v \<Rightarrow> (Inr v, [])
      | None \<Rightarrow> (Inl MalformedBody, []))"

definition headersAccepted :: "response \<Rightarrow> error option" where
  "headersAccepted res = None"

definition headersRefused :: "response \<Rightarrow> error option" where
  "headersRefused res = Some (UnexpectedHeader ''Date'')"

definition parseAny :: "string \<Rightarrow> error + string" where
  "parseAny endpoint = (if endpoint = [] then Inl InvalidEndpoint else Inr endpoint)"

definition amazonHost :: "string \<Rightarrow> bool" where
  "amazonHost endpointURL = (endpointURL = ''https://s3.amazonaws.com'')"

text \<open>A fixture object, and the entry a server lists for it (the ETag in quotes).\<close>

definition fixture :: "string \<Rightarrow> int \<Rightarrow> string \<Rightarrow> ObjectInfo" where
  "fixture k n e = \<lparr>ObjectInfo.Key = k, Size = n, ETag = e\<rparr>"

definition listed :: "ObjectInfo \<Rightarrow> ObjectInfo" where
  "listed obj = obj\<lparr>ETag := [CHR 0x22] @ ETag obj @ [CHR 0x22]\<rparr>"

definition fixtures45 :: "ObjectInfo list" where
  "fixtures45 = map (\<lambda>i. fixture (replicate i (CHR ''k'')) (int i) ''etag'') [1..<46]"

definition okResponse :: "string \<Rightarrow> response" where
  "okResponse body = \<lparr>Status = ''200 OK'', Header = [], Body = body\<rparr>"

definition forbiddenResponse :: "string \<Rightarrow> response" where
  "forbiddenResponse body = \<lparr>Status = ''403 Forbidden'', Header = [], Body = body\<rparr>"

definition bucketList ::
  "string \<Rightarrow> ObjectInfo list \<Rightarrow> string list \<Rightarrow> int \<Rightarrow> listBucketResult" where
  "bucketList name cs ps mk =
     \<lparr>Name = name, Contents = cs, CommonPrefixes = ps, MaxKeys = mk\<rparr>"

definition objA :: ObjectInfo where
  "objA = fixture ''a'' 1 ''x''"

definition objB :: ObjectInfo where
  "objB = fixture ''b'' 2 ''y''"

definition uploadK :: ObjectMultipartInfo where
  "uploadK = \<lparr>ObjectMultipartInfo.Key = ''k'', UploadID = ''id'', Size = 0\<rparr>"


definition serverConfig :: "string \<Rightarrow> string \<Rightarrow> ServerConfig" where
  "serverConfig endpoint region =
     \<lparr>Access = ''access'', Secret = ''secret'', Endpoint = endpoint, Region = region\<rparr>"

section \<open>The counting loops\<close>

lemma countExpected_filter:
  "countExpected r es n = n + length (filter (entryMatches r) es)"
  by (induction es arbitrary: n) simp_all

lemma countReceived_sum:
  "countReceived rs es n = n + (\<Sum>r\<leftarrow>rs. length (filter (entryMatches r) es))"
  by (induction rs arbitrary: n) (simp_all add: countExpected_filter)

lemma countReceived_matchingPairs: "countReceived rs es 0 = matchingPairs rs es"
  by (induction rs) (simp_all add: countReceived_sum matchingPairs_def comp_def)

lemma countReceived_mset:
  assumes "mset rs = mset rs'"
  shows "countReceived rs es n = countReceived rs' es n"
proof -
  let ?f = "\<lambda>r. length (filter (entryMatches r) es)"
  have "sum_list (map ?f rs) = sum_mset (image_mset ?f (mset rs))"
    by (simp add: sum_mset_sum_list flip: mset_map)
  also have "\<dots> = sum_mset (image_mset ?f (mset rs'))"
    using assms by simp
  also have "\<dots> = sum_list (map ?f rs')"
    by (simp add: sum_mset_sum_list flip: mset_map)
  finally show ?thesis
    by (simp add: countReceived_sum)
qed



lemmas fixture_defs =
  bucketList_def objA_def objB_def fixture_def listed_def okResponse_def
  forbiddenResponse_def decodeAs_def decodeFails_def decodeTable_def headersAccepted_def
  headersRefused_def

section \<open>The body check of ListObjects V1\<close>

text \<open>
  What the body check returns once the body has decoded and the bucket name is the
  expected one: the two branches on \<open>MaxKeys\<close>, with the loops read as the count of
  matching pairs.
\<close>

lemma verifyBody_decoded:
  assumes "xmlDecoder (Body res) = (Inr receivedList, rest)"
    and "Name receivedList = Name expectedList"
  shows "fst (verifyBodyListObjectsV1 xmlDecoder objects res expectedList) =
     (if MaxKeys expectedList \<noteq> 0
      then (if MaxKeys expectedList \<noteq>
                 int (length (Contents receivedList) + length (CommonPrefixes receivedList))
            then Some (UnexpectedNumberOfObjects (MaxKeys expectedList)
                   (int (length (Contents receivedList) + length (CommonPrefixes receivedList))))
            else None)
      else (if length objects \<noteq> matchingPairs (Contents receivedList) (Contents expectedList)
            then Some (UnexpectedNumberOfObjects (int (length objects))
                   (int (matchingPairs (Contents receivedList) (Contents expectedList))))
            else None))"
  using assms
  by (simp add: verifyBodyListObjectsV1_def countReceived_matchingPairs Let_def)

lemma verifyBody_success_decoded:
  assumes "fst (verifyBodyListObjectsV1 xmlDecoder objects res expectedList) = None"
  shows "\<exists>receivedList rest. xmlDecoder (Body res) = (Inr receivedList, rest) \<and>
           Name receivedList = Name expectedList"
  using assms
  by (auto simp: verifyBodyListObjectsV1_def split: prod.splits sum.splits if_splits)

lemma verifyBody_bucket_mismatch:
  assumes "xmlDecoder (Body res) = (Inr receivedList, rest)"
    and "Name receivedList \<noteq> Name expectedList"
  shows "fst (verifyBodyListObjectsV1 xmlDecoder objects res expectedList) =
           Some (UnexpectedBucket (Name expectedList) (Name receivedList))"
  using assms by (simp add: verifyBodyListObjectsV1_def)

subsection \<open>C1: the verifier of ListMultipartUploads\<close>

text \<open>
  C1. The claim: \<open>listMultipartUploadsVerify\<close> returns an error carrying the expected
  and the received value whenever the received status line differs from the expected
  one. The function returns no error whatever it is given: on a response
  \<open>403 Forbidden\<close> where \<open>200 OK\<close> is expected it succeeds, while the status check
  defined beside it, which it never calls, reports the mismatch.
\<close>

theorem listMultipartUploadsVerify_accepts_wrong_status:
  "listMultipartUploadsVerify (forbiddenResponse []) ''200 OK''
       \<lparr>Bucket = ''bucket'', Uploads = []\<rparr> = None \<and>
   verifyStatusListMultipartUploads (forbiddenResponse []) ''200 OK'' =
     Some (UnexpectedStatus ''200 OK'' ''403 Forbidden'')"
  by (simp add: listMultipartUploadsVerify_def verifyStatusListMultipartUploads_def
      forbiddenResponse_def)

subsection \<open>C3: the count of matching pairs\<close>

text \<open>
  The claim of C3 as it is written fails twice. With a nonzero \<open>MaxKeys\<close> the count of
  matching pairs is not looked at: one received entry that matches nothing passes against
  one expected entry. With \<open>MaxKeys\<close> zero the count is compared with the size of the
  fixture registry, not with the number of expected entries: an empty listing passes
  against one expected entry when the registry is empty.
\<close>

theorem match_count_unchecked_example:
  "fst (verifyBodyListObjectsV1 (decodeAs (bucketList ''bucket'' [objB] [] 0))
         [objA] (okResponse []) (bucketList ''bucket'' [objA] [] 1)) = None \<and>
   matchingPairs [objB] [objA] = 0 \<and>
   length [objA] = 1 \<and>
   fst (verifyBodyListObjectsV1 (decodeAs (bucketList ''bucket'' [] [] 0))
         [] (okResponse []) (bucketList ''bucket'' [objA] [] 0)) = None \<and>
   matchingPairs [] [objA] = 0"
  by (simp add: verifyBodyListObjectsV1_def matchingPairs_def entryMatches_def fixture_defs)

text \<open>
  C3, amended. For every expected list whose \<open>MaxKeys\<close> is zero and every received body,
  \<open>verifyBodyListObjectsV1\<close> succeeds only if the body decodes, the bucket name is the
  expected one and the count of structurally matching (received, expected) entry pairs
  equals the number of fixture objects; and when the body decodes with the expected
  bucket name and the count differs, it returns the error that carries the number of
  fixture objects and the count of matching pairs.
\<close>

theorem match_count_checked_without_MaxKeys:
  assumes "MaxKeys expectedList = 0"
  shows "(fst (verifyBodyListObjectsV1 xmlDecoder objects res expectedList) = None \<longrightarrow>
           (\<exists>receivedList rest. xmlDecoder (Body res) = (Inr receivedList, rest) \<and>
              Name receivedList = Name expectedList \<and>
              matchingPairs (Contents receivedList) (Contents expectedList) = length objects)) \<and>
         (\<forall>receivedList rest.
            xmlDecoder (Body res) = (Inr receivedList, rest) \<and>
            Name receivedList = Name expectedList \<and>
            matchingPairs (Contents receivedList) (Contents expectedList) \<noteq> length objects \<longrightarrow>
            fst (verifyBodyListObjectsV1 xmlDecoder objects res expectedList) =
              Some (UnexpectedNumberOfObjects (int (length objects))
                (int (matchingPairs (Contents receivedList) (Contents expectedList)))))"
proof (intro conjI impI allI)
  assume ok: "fst (verifyBodyListObjectsV1 xmlDecoder objects res expectedList) = None"
  then obtain receivedList rest
    where d: "xmlDecoder (Body res) = (Inr receivedList, rest)"
      and n: "Name receivedList = Name expectedList"
    using verifyBody_success_decoded by blast
  from ok assms
  have "matchingPairs (Contents receivedList) (Contents expectedList) = length objects"
    using verifyBody_decoded [of xmlDecoder res receivedList rest expectedList objects, OF d n]
    by (simp split: if_splits)
  with d n show "\<exists>receivedList rest. xmlDecoder (Body res) = (Inr receivedList, rest) \<and>
      Name receivedList = Name expectedList \<and>
      matchingPairs (Contents receivedList) (Contents expectedList) = length objects"
    by blast
next
  fix receivedList rest
  assume h: "xmlDecoder (Body res) = (Inr receivedList, rest) \<and>
      Name receivedList = Name expectedList \<and>
      matchingPairs (Contents receivedList) (Contents expectedList) \<noteq> length objects"
  then show "fst (verifyBodyListObjectsV1 xmlDecoder objects res expectedList) =
      Some (UnexpectedNumberOfObjects (int (length objects))
        (int (matchingPairs (Contents receivedList) (Contents expectedList))))"
    using assms verifyBody_decoded [of xmlDecoder res receivedList rest expectedList objects]
    by auto
qed

text \<open>
  The amended C3 at two fixtures: both listed, in the other order, the check passes; only
  one listed, it fails with the counts 2 and 1.
\<close>

theorem match_count_checked_example:
  "MaxKeys (bucketList ''bucket'' [objA, objB] [] 0) = 0 \<and>
   fst (verifyBodyListObjectsV1 (decodeAs (bucketList ''bucket'' [listed objB, listed objA] [] 0))
         [objA, objB] (okResponse []) (bucketList ''bucket'' [objA, objB] [] 0)) = None \<and>
   matchingPairs [listed objB, listed objA] [objA, objB] = length [objA, objB] \<and>
   matchingPairs [listed objA] [objA, objB] \<noteq> length [objA, objB] \<and>
   fst (verifyBodyListObjectsV1 (decodeAs (bucketList ''bucket'' [listed objA] [] 0))
         [objA, objB] (okResponse []) (bucketList ''bucket'' [objA, objB] [] 0)) =
     Some (UnexpectedNumberOfObjects 2 1)"
proof -
  have m: "matchingPairs [listed objB, listed objA] [objA, objB] = 2"
      "matchingPairs [listed objA] [objA, objB] = 1"
    by (simp_all add: matchingPairs_def entryMatches_def fixture_defs)
  have ok: "fst (verifyBodyListObjectsV1
         (decodeAs (bucketList ''bucket'' [listed objB, listed objA] [] 0))
         [objA, objB] (okResponse []) (bucketList ''bucket'' [objA, objB] [] 0)) = None"
    by (simp add: verifyBodyListObjectsV1_def entryMatches_def fixture_defs)
  show ?thesis
    using match_count_checked_without_MaxKeys
      [of "bucketList ''bucket'' [objA, objB] [] 0"
          "decodeAs (bucketList ''bucket'' [listed objB, listed objA] [] 0)"
          "[objA, objB]" "okResponse []"]
      match_count_checked_without_MaxKeys
      [of "bucketList ''bucket'' [objA, objB] [] 0"
          "decodeAs (bucketList ''bucket'' [listed objA] [] 0)"
          "[objA, objB]" "okResponse []"]
      m ok
    by (simp add: bucketList_def decodeAs_def)
qed

subsection \<open>C5: the order of the received entries\<close>

text \<open>
  C5. For every expected list and every permutation of the received \<open>Contents\<close>
  sequence, \<open>verifyBodyListObjectsV1\<close> returns the same outcome as on the unpermuted
  sequence: two bodies that decode to the same list but for the order of its entries
  get the same result, error value included.
\<close>

theorem received_order_irrelevant:
  assumes "xmlDecoder (Body res) = (Inr receivedList, rest)"
    and "xmlDecoder (Body res') = (Inr (receivedList\<lparr>Contents := permuted\<rparr>), rest')"
    and "mset permuted = mset (Contents receivedList)"
  shows "fst (verifyBodyListObjectsV1 xmlDecoder objects res' expectedList) =
         fst (verifyBodyListObjectsV1 xmlDecoder objects res expectedList)"
proof -
  have len: "length permuted = length (Contents receivedList)"
    using assms(3) by (rule mset_eq_length)
  have cnt: "countReceived permuted (Contents expectedList) 0 =
      countReceived (Contents receivedList) (Contents expectedList) 0"
    using assms(3) by (rule countReceived_mset)
  show ?thesis
    using assms(1,2) len cnt by (simp add: verifyBodyListObjectsV1_def Let_def)
qed

text \<open>Two bodies that list the same two entries in either order.\<close>

theorem received_order_irrelevant_example:
  "decodeTable [(''AB'', bucketList ''bucket'' [listed objA, listed objB] [] 0),
                (''BA'', bucketList ''bucket'' [listed objB, listed objA] [] 0)] ''AB'' =
     (Inr (bucketList ''bucket'' [listed objA, listed objB] [] 0), []) \<and>
   decodeTable [(''AB'', bucketList ''bucket'' [listed objA, listed objB] [] 0),
                (''BA'', bucketList ''bucket'' [listed objB, listed objA] [] 0)] ''BA'' =
     (Inr (bucketList ''bucket'' [listed objB, listed objA] [] 0), []) \<and>
   mset [listed objB, listed objA] = mset [listed objA, listed objB] \<and>
   fst (verifyBodyListObjectsV1
         (decodeTable [(''AB'', bucketList ''bucket'' [listed objA, listed objB] [] 0),
                       (''BA'', bucketList ''bucket'' [listed objB, listed objA] [] 0)])
         [objA, objB] (okResponse ''BA'') (bucketList ''bucket'' [objA, objB] [] 0)) =
   fst (verifyBodyListObjectsV1
         (decodeTable [(''AB'', bucketList ''bucket'' [listed objA, listed objB] [] 0),
                       (''BA'', bucketList ''bucket'' [listed objB, listed objA] [] 0)])
         [objA, objB] (okResponse ''AB'') (bucketList ''bucket'' [objA, objB] [] 0))"
proof -
  let ?dec = "decodeTable [(''AB'', bucketList ''bucket'' [listed objA, listed objB] [] 0),
                (''BA'', bucketList ''bucket'' [listed objB, listed objA] [] 0)]"
  have a: "?dec (Body (okResponse ''AB'')) =
      (Inr (bucketList ''bucket'' [listed objA, listed objB] [] 0), [])"
    by (simp add: decodeTable_def okResponse_def)
  have b: "?dec (Body (okResponse ''BA'')) =
      (Inr ((bucketList ''bucket'' [listed objA, listed objB] [] 0)
              \<lparr>Contents := [listed objB, listed objA]\<rparr>), [])"
    by (simp add: decodeTable_def okResponse_def bucketList_def)
  have c: "mset [listed objB, listed objA] =
      mset (Contents (bucketList ''bucket'' [listed objA, listed objB] [] 0))"
    by (simp add: bucketList_def)
  show ?thesis
    using received_order_irrelevant
        [of ?dec "okResponse ''AB''" "bucketList ''bucket'' [listed objA, listed objB] [] 0" "[]"
            "okResponse ''BA''" "[listed objB, listed objA]" "[]" "[objA, objB]"
            "bucketList ''bucket'' [objA, objB] [] 0", OF a b c] a b c
    by (simp add: okResponse_def bucketList_def)
qed

subsection \<open>C6: the count rule\<close>

text \<open>
  C6. Once the body has decoded with the expected bucket name: for an expected list whose
  \<open>MaxKeys\<close> is nonzero, \<open>verifyBodyListObjectsV1\<close> returns an error exactly when the
  received entry count (\<open>Contents\<close> entries plus \<open>CommonPrefixes\<close> entries) differs from
  \<open>MaxKeys\<close>; when \<open>MaxKeys\<close> is zero it succeeds exactly when the count of matching
  entries equals the size of the fixture population.
\<close>

theorem count_rule:
  assumes "xmlDecoder (Body res) = (Inr receivedList, rest)"
    and "Name receivedList = Name expectedList"
  shows "(MaxKeys expectedList \<noteq> 0 \<longrightarrow>
            (fst (verifyBodyListObjectsV1 xmlDecoder objects res expectedList) \<noteq> None) =
            (int (length (Contents receivedList) + length (CommonPrefixes receivedList))
               \<noteq> MaxKeys expectedList)) \<and>
         (MaxKeys expectedList = 0 \<longrightarrow>
            (fst (verifyBodyListObjectsV1 xmlDecoder objects res expectedList) = None) =
            (matchingPairs (Contents receivedList) (Contents expectedList) = length objects))"
  using verifyBody_decoded [of xmlDecoder res receivedList rest expectedList objects, OF assms]
  by auto

text \<open>
  One entry and one common prefix received: with \<open>MaxKeys\<close> 2 the check passes, with
  \<open>MaxKeys\<close> 0 and two fixtures it fails, one pair matching.
\<close>

theorem count_rule_example:
  "decodeAs (bucketList ''bucket'' [listed objA] [''photos/''] 2) (Body (okResponse [])) =
     (Inr (bucketList ''bucket'' [listed objA] [''photos/''] 2), []) \<and>
   Name (bucketList ''bucket'' [listed objA] [''photos/''] 2) =
     Name (bucketList ''bucket'' [objA, objB] [] 2) \<and>
   MaxKeys (bucketList ''bucket'' [objA, objB] [] 2) \<noteq> 0 \<and>
   fst (verifyBodyListObjectsV1 (decodeAs (bucketList ''bucket'' [listed objA] [''photos/''] 2))
         [objA, objB] (okResponse []) (bucketList ''bucket'' [objA, objB] [] 2)) = None \<and>
   MaxKeys (bucketList ''bucket'' [objA, objB] [] 0) = 0 \<and>
   matchingPairs [listed objA] [objA, objB] \<noteq> length [objA, objB] \<and>
   fst (verifyBodyListObjectsV1 (decodeAs (bucketList ''bucket'' [listed objA] [''photos/''] 2))
         [objA, objB] (okResponse []) (bucketList ''bucket'' [objA, objB] [] 0)) \<noteq> None"
proof -
  let ?rl = "bucketList ''bucket'' [listed objA] [''photos/''] 2"
  have d: "decodeAs ?rl (Body (okResponse [])) = (Inr ?rl, [])"
    by (simp add: decodeAs_def)
  have n2: "Name ?rl = Name (bucketList ''bucket'' [objA, objB] [] 2)"
    and n0: "Name ?rl = Name (bucketList ''bucket'' [objA, objB] [] 0)"
    by (simp_all add: bucketList_def)
  have m: "matchingPairs [listed objA] [objA, objB] = 1"
    by (simp add: matchingPairs_def entryMatches_def fixture_defs)
  show ?thesis
    using count_rule [of "decodeAs ?rl" "okResponse []" ?rl "[]"
          "bucketList ''bucket'' [objA, objB] [] 2" "[objA, objB]", OF d n2]
      count_rule [of "decodeAs ?rl" "okResponse []" ?rl "[]"
          "bucketList ''bucket'' [objA, objB] [] 0" "[objA, objB]", OF d n0]
      d m
    by (simp add: bucketList_def)
qed

subsection \<open>C7: when two entries match\<close>


section \<open>The expected result for max-keys\<close>

text \<open>
  C2. The claim: from 45 or more key-sorted fixture objects, the expected list that
  \<open>mainListObjectsV1\<close> builds for max-keys=30 holds exactly 30 entries and carries
  \<open>MaxKeys\<close> 30. The slice expression is \<open>objectInfo[:31]\<close>: whenever there are 31
  fixtures or more, the list holds the first 31 entries of the key-sorted fixtures,
  beside \<open>MaxKeys\<close> 30.
\<close>

theorem expectedListMaxKeys_has_31_entries:
  assumes "validBuckets = bucketName # others"
    and "31 \<le> length objects"
  shows "\<exists>expectedList expectedListMaxKeys.
           mainListObjectsV1_expected validBuckets capacity objects =
             Inr (expectedList, expectedListMaxKeys) \<and>
           mset (Contents expectedList) = mset objects \<and>
           sorted (map Key (Contents expectedList)) \<and>
           Contents expectedListMaxKeys = take 31 (Contents expectedList) \<and>
           length (Contents expectedListMaxKeys) = 31 \<and>
           MaxKeys expectedListMaxKeys = 30"
  using assms
  by (simp add: mainListObjectsV1_expected_def sliceTo_def Let_def sorted_sort_key)

text \<open>With 45 fixtures: 31 expected entries.\<close>

theorem expectedListMaxKeys_45_fixtures:
  "length fixtures45 = 45 \<and>
   (\<exists>expectedList expectedListMaxKeys.
      mainListObjectsV1_expected [''bucket''] 64 fixtures45 =
        Inr (expectedList, expectedListMaxKeys) \<and>
      length (Contents expectedListMaxKeys) = 31 \<and>
      MaxKeys expectedListMaxKeys = 30)"
proof -
  have len: "length fixtures45 = 45"
    by (simp add: fixtures45_def)
  then have "31 \<le> length fixtures45" by simp
  from expectedListMaxKeys_has_31_entries [OF refl this, of "''bucket''" "[]" 64] len
  show ?thesis by blast
qed

section \<open>The order of the checks of ListObjects V1\<close>

text \<open>
  The claim of C4 puts the header check before the body check. On a response with the
  expected status whose body does not decode and whose headers are refused,
  \<open>listObjectsV1Verify\<close> has read the body and returns the decoder's error; in the
  order of the claim the header error is returned and the body is left unread.
\<close>

theorem header_check_not_second_example:
  "listObjectsV1Verify decodeFails headersRefused [] (okResponse ''<xml>'') ''200 OK''
       (bucketList ''bucket'' [] [] 0) = (Some MalformedBody, okResponse []) \<and>
   listObjectsV1Verify_specOrder decodeFails headersRefused [] (okResponse ''<xml>'') ''200 OK''
       (bucketList ''bucket'' [] [] 0) = (Some (UnexpectedHeader ''Date''), okResponse ''<xml>'')"
  by (simp add: listObjectsV1Verify_def listObjectsV1Verify_specOrder_def
      verifyStatusListObjectsV1_def verifyBodyListObjectsV1_def verifyHeaderListObjectsV1_def
      fixture_defs)

text \<open>
  C4, amended. \<open>listObjectsV1Verify\<close> performs the status check first, the body check
  second and the header check last, each check running only if the previous one
  succeeded: on a status mismatch it returns the unexpected-status error with the
  response as it was given, the body unread, whatever the decoder and the header check
  are; on a matching status an error of the body check is returned as it is; and when
  the body check succeeds the result is that of the header check on the response left by
  the body check.
\<close>

theorem checks_status_body_header:
  "(Status res \<noteq> expectedStatus \<longrightarrow>
      listObjectsV1Verify xmlDecoder verifyStandardHeaders objects res expectedStatus expectedList =
        (Some (UnexpectedStatus expectedStatus (Status res)), res)) \<and>
   (Status res = expectedStatus \<longrightarrow>
      (\<forall>err res'. verifyBodyListObjectsV1 xmlDecoder objects res expectedList = (Some err, res') \<longrightarrow>
         listObjectsV1Verify xmlDecoder verifyStandardHeaders objects res expectedStatus
           expectedList = (Some err, res')) \<and>
      (\<forall>res'. verifyBodyListObjectsV1 xmlDecoder objects res expectedList = (None, res') \<longrightarrow>
         listObjectsV1Verify xmlDecoder verifyStandardHeaders objects res expectedStatus
           expectedList = (verifyHeaderListObjectsV1 verifyStandardHeaders res', res')))"
  by (auto simp: listObjectsV1Verify_def verifyStatusListObjectsV1_def
      verifyHeaderListObjectsV1_def split: option.splits)

text \<open>
  The three cases: \<open>403 Forbidden\<close> where \<open>200 OK\<close> is expected, with a decoder that
  would fail and headers that would be refused; the expected status with a body that does
  not decode; the expected status with a body that passes and headers that are refused.
\<close>

theorem checks_status_body_header_example:
  "Status (forbiddenResponse ''<xml>'') \<noteq> ''200 OK'' \<and>
   listObjectsV1Verify decodeFails headersRefused [] (forbiddenResponse ''<xml>'') ''200 OK''
       (bucketList ''bucket'' [] [] 0) =
     (Some (UnexpectedStatus ''200 OK'' ''403 Forbidden''), forbiddenResponse ''<xml>'') \<and>
   Status (okResponse ''<xml>'') = ''200 OK'' \<and>
   verifyBodyListObjectsV1 decodeFails [] (okResponse ''<xml>'') (bucketList ''bucket'' [] [] 0) =
     (Some MalformedBody, okResponse []) \<and>
   listObjectsV1Verify decodeFails headersRefused [] (okResponse ''<xml>'') ''200 OK''
       (bucketList ''bucket'' [] [] 0) = (Some MalformedBody, okResponse []) \<and>
   verifyBodyListObjectsV1 (decodeAs (bucketList ''bucket'' [] [] 0)) [] (okResponse ''<xml>'')
       (bucketList ''bucket'' [] [] 0) = (None, okResponse []) \<and>
   listObjectsV1Verify (decodeAs (bucketList ''bucket'' [] [] 0)) headersRefused []
       (okResponse ''<xml>'') ''200 OK'' (bucketList ''bucket'' [] [] 0) =
     (Some (UnexpectedHeader ''Date''), okResponse [])"
proof -
  have s403: "Status (forbiddenResponse ''<xml>'') \<noteq> ''200 OK''"
    and s200: "Status (okResponse ''<xml>'') = ''200 OK''"
    by (simp_all add: fixture_defs)
  have b1: "verifyBodyListObjectsV1 decodeFails [] (okResponse ''<xml>'')
      (bucketList ''bucket'' [] [] 0) = (Some MalformedBody, okResponse [])"
    and b2: "verifyBodyListObjectsV1 (decodeAs (bucketList ''bucket'' [] [] 0)) []
      (okResponse ''<xml>'') (bucketList ''bucket'' [] [] 0) = (None, okResponse [])"
    by (simp_all add: verifyBodyListObjectsV1_def fixture_defs)
  show ?thesis
    using checks_status_body_header [of "forbiddenResponse ''<xml>''" "''200 OK''" decodeFails
        headersRefused "[]" "bucketList ''bucket'' [] [] 0"]
      checks_status_body_header [of "okResponse ''<xml>''" "''200 OK''" decodeFails
        headersRefused "[]" "bucketList ''bucket'' [] [] 0"]
      checks_status_body_header [of "okResponse ''<xml>''" "''200 OK''"
        "decodeAs (bucketList ''bucket'' [] [] 0)" headersRefused "[]"
        "bucketList ''bucket'' [] [] 0"]
      s403 s200 b1 b2
    by (simp add: forbiddenResponse_def headersRefused_def verifyHeaderListObjectsV1_def)
qed

section \<open>The bucket name\<close>

text \<open>
  C8. The claim: a decoded body whose bucket name differs from the expected one fails
  with an unexpected-bucket error even if all entries match, in the ListObjects V1 body
  check and in the ListMultipartUploads body check. The first does so
  (\<open>verifyBody_bucket_mismatch\<close>); the second never reads the \<open>Bucket\<close> field: a listing
  of bucket \<open>other\<close> with the expected upload passes against the expected bucket
  \<open>bucket\<close>, where the ListObjects V1 check reports the bucket.
\<close>

theorem multipart_body_check_ignores_bucket:
  "fst (verifyBodyListMultipartUploads (decodeAs \<lparr>Bucket = ''other'', Uploads = [uploadK]\<rparr>)
         (okResponse []) \<lparr>Bucket = ''bucket'', Uploads = [uploadK]\<rparr>) = None \<and>
   fst (verifyBodyListObjectsV1 (decodeAs (bucketList ''other'' [listed objA] [] 0)) [objA]
         (okResponse []) (bucketList ''bucket'' [objA] [] 0)) =
     Some (UnexpectedBucket ''bucket'' ''other'')"
  by (simp add: verifyBodyListMultipartUploads_def verifyBodyListObjectsV1_def uploadMatches_def
      uploadK_def fixture_defs)

section \<open>The default region\<close>

text \<open>
  C9. For every configuration whose endpoint parses as a URL, \<open>setRegion\<close> returns no
  error; it leaves a non-empty \<open>Region\<close> unchanged, and an empty \<open>Region\<close> becomes
  \<open>us-west-1\<close> if the endpoint is an Amazon host and the global default region
  otherwise. No other field changes.
\<close>

theorem setRegion_defaults:
  assumes "urlParse (Endpoint config) = Inr endpointURL"
  shows "setRegion urlParse isAmazonEndpoint globalDefaultRegion config =
     (None,
      if Region config \<noteq> [] then config
      else if isAmazonEndpoint endpointURL then config\<lparr>Region := ''us-west-1''\<rparr>
      else config\<lparr>Region := globalDefaultRegion\<rparr>)"
  using assms by (simp add: setRegion_def)

text \<open>
  An Amazon endpoint and a local one without a region, and an Amazon endpoint with a
  region given, the global default being \<open>us-east-1\<close>.
\<close>

theorem setRegion_defaults_example:
  "parseAny (Endpoint (serverConfig ''https://s3.amazonaws.com'' [])) =
     Inr ''https://s3.amazonaws.com'' \<and>
   setRegion parseAny amazonHost ''us-east-1'' (serverConfig ''https://s3.amazonaws.com'' []) =
     (None, serverConfig ''https://s3.amazonaws.com'' ''us-west-1'') \<and>
   parseAny (Endpoint (serverConfig ''http://localhost:9000'' [])) =
     Inr ''http://localhost:9000'' \<and>
   setRegion parseAny amazonHost ''us-east-1'' (serverConfig ''http://localhost:9000'' []) =
     (None, serverConfig ''http://localhost:9000'' ''us-east-1'') \<and>
   parseAny (Endpoint (serverConfig ''https://s3.amazonaws.com'' ''eu-west-1'')) =
     Inr ''https://s3.amazonaws.com'' \<and>
   setRegion parseAny amazonHost ''us-east-1''
       (serverConfig ''https://s3.amazonaws.com'' ''eu-west-1'') =
     (None, serverConfig ''https://s3.amazonaws.com'' ''eu-west-1'')"
proof -
  have p: "parseAny (Endpoint (serverConfig ''https://s3.amazonaws.com'' r)) =
      Inr ''https://s3.amazonaws.com''"
    "parseAny (Endpoint (serverConfig ''http://localhost:9000'' r)) =
      Inr ''http://localhost:9000''" for r
    by (simp_all add: parseAny_def serverConfig_def)
  show ?thesis
    using setRegion_defaults [of parseAny "serverConfig ''https://s3.amazonaws.com'' []"
          "''https://s3.amazonaws.com''" amazonHost "''us-east-1''"]
      setRegion_defaults [of parseAny "serverConfig ''http://localhost:9000'' []"
          "''http://localhost:9000''" amazonHost "''us-east-1''"]
      setRegion_defaults [of parseAny "serverConfig ''https://s3.amazonaws.com'' ''eu-west-1''"
          "''https://s3.amazonaws.com''" amazonHost "''us-east-1''"]
      p
    by (simp add: amazonHost_def serverConfig_def)
qed

section \<open>Duplicated entries\<close>

text \<open>
  The search \<open>injectivePairing\<close> finds a pairing whenever some injective map of the
  positions of the received entries to positions of matching expected entries exists, so
  where it fails there is none.
\<close>

lemma nth_remove_index:
  assumes "k < length es" "k \<noteq> j" "j < length es"
  shows "(take j es @ drop (Suc j) es) ! (if k < j then k else k - 1) = es ! k"
  using assms by (auto simp: nth_append min_def)

lemma injectivePairing_complete:
  assumes "inj_on f {..<length rs}"
    and "\<forall>i<length rs. f i < length es \<and> entryMatches (rs ! i) (es ! f i)"
  shows "injectivePairing rs es"
  using assms
proof (induction rs arbitrary: es f)
  case Nil
  then show ?case by simp
next
  case (Cons r rs)
  let ?j = "f 0"
  let ?es' = "take ?j es @ drop (Suc ?j) es"
  let ?g = "\<lambda>i. if f (Suc i) < ?j then f (Suc i) else f (Suc i) - 1"
  from Cons.prems(2) have j: "?j < length es" and mj: "entryMatches r (es ! ?j)"
    by auto
  have ne: "f (Suc i) \<noteq> ?j" if "i < length rs" for i
  proof
    assume "f (Suc i) = ?j"
    with Cons.prems(1) that have "Suc i = 0"
      by (auto simp: inj_on_def)
    then show False by simp
  qed
  have bound: "f (Suc i) < length es" and m: "entryMatches (rs ! i) (es ! f (Suc i))"
    if "i < length rs" for i
    using Cons.prems(2) that by auto
  have inj: "inj_on ?g {..<length rs}"
  proof (rule inj_onI)
    fix a b
    assume a: "a \<in> {..<length rs}" and b: "b \<in> {..<length rs}" and eq: "?g a = ?g b"
    from a b ne have "f (Suc a) \<noteq> ?j" "f (Suc b) \<noteq> ?j" by auto
    with eq have "f (Suc a) = f (Suc b)"
      by (auto split: if_splits)
    with Cons.prems(1) a b show "a = b"
      by (auto simp: inj_on_def)
  qed
  have ok: "\<forall>i<length rs. ?g i < length ?es' \<and> entryMatches (rs ! i) (?es' ! ?g i)"
  proof (intro allI impI)
    fix i assume i: "i < length rs"
    have "?es' ! ?g i = es ! f (Suc i)"
      using nth_remove_index [OF bound [OF i] ne [OF i] j] .
    moreover have "?g i < length ?es'"
      using bound [OF i] ne [OF i] j by auto
    ultimately show "?g i < length ?es' \<and> entryMatches (rs ! i) (?es' ! ?g i)"
      using m [OF i] by simp
  qed
  have "injectivePairing rs ?es'"
    using Cons.IH [OF inj ok] .
  with j mj show ?case
    by (auto simp: list_ex_iff)
qed


end
